theory Spec2Isabelle
  imports Complex_Main
begin

section \<open>JavaScript values used by the adapter base class\<close>

text \<open>
  The development embeds \<^verbatim>\<open>BaseAdapter\<close> of
  \<^verbatim>\<open>packages/base/src/adapter/IAdapter.ts\<close>. The class reads its data with
  JavaScript's truthiness tests, strict equality and property access, so these are
  written out here as the language defines them.
\<close>

text \<open>
  A JavaScript number: a finite value, an infinity or NaN. The class only stores the
  session time and tests it for truthiness (\<^verbatim>\<open>if (options?.sessionTime)\<close>): a number
  is falsy exactly when it is zero or NaN.
\<close>

datatype jsnumber = Fin real | PosInf | NegInf | NaN

fun number_truthy :: "jsnumber \<Rightarrow> bool" where
  "number_truthy (Fin r) = (r \<noteq> 0)"
| "number_truthy PosInf = True"
| "number_truthy NegInf = True"
| "number_truthy NaN = False"

text \<open>A string is falsy exactly when it is empty.\<close>

definition string_truthy :: "string \<Rightarrow> bool" where
  "string_truthy s = (s \<noteq> [])"

text \<open>
  The values a field of a chain configuration holds: a string (namespace, chain id, RPC
  target, ticker, ...), a boolean, or \<^verbatim>\<open>undefined\<close>/\<^verbatim>\<open>null\<close> for a field that is
  written but empty (the demo configuration of the repository sets \<^verbatim>\<open>rpcTarget\<close> from an
  environment variable, which may be undefined).
\<close>

datatype jsval = JUndefined | JNull | JBool bool | JString string

fun ToBoolean :: "jsval \<Rightarrow> bool" where
  "ToBoolean JUndefined = False"
| "ToBoolean JNull = False"
| "ToBoolean (JBool b) = b"
| "ToBoolean (JString s) = string_truthy s"

text \<open>A value used as a property key (\<^verbatim>\<open>obj[v]\<close>) is converted to a string.\<close>

fun ToPropertyKey :: "jsval \<Rightarrow> string" where
  "ToPropertyKey (JString s) = s"
| "ToPropertyKey JUndefined = ''undefined''"
| "ToPropertyKey JNull = ''null''"
| "ToPropertyKey (JBool True) = ''true''"
| "ToPropertyKey (JBool False) = ''false''"

text \<open>
  A chain configuration (\<^verbatim>\<open>CustomChainConfig\<close>) is a plain data object: its own
  properties, by name. The spread \<^verbatim>\<open>{...a, ...b}\<close> of two such objects is \<open>a ++ b\<close>: every
  own property of \<open>b\<close>, and the properties of \<open>a\<close> that \<open>b\<close> does not have.
\<close>

type_synonym obj = "string \<rightharpoonup> jsval"

text \<open>
  Reading a declared field, \<^verbatim>\<open>config.chainNamespace\<close>, \<^verbatim>\<open>config.chainId\<close>,
  \<^verbatim>\<open>config.rpcTarget\<close>: the own property, \<^verbatim>\<open>undefined\<close> when the object has none of that
  name (none of the three is a member of \<^verbatim>\<open>Object.prototype\<close>).
\<close>

definition field :: "obj \<Rightarrow> string \<Rightarrow> jsval" where
  "field ob k = (case ob k of None \<Rightarrow> JUndefined | Some v \<Rightarrow> v)"

section \<open>The known-chains object\<close>

text \<open>
  \<^verbatim>\<open>knownChainConfigs\<close> is initialised with the object literal \<^verbatim>\<open>{}\<close> and indexed with the
  chain id, \<^verbatim>\<open>this.knownChainConfigs[chainId]\<close>. It is an ordinary object, so a read that
  finds no own property goes on to the object's prototype, which is \<^verbatim>\<open>Object.prototype\<close>
  until an assignment to the key \<^verbatim>\<open>__proto__\<close> replaces it by the assigned configuration.
  The record holds the own properties and that prototype (\<open>None\<close>: still
  \<^verbatim>\<open>Object.prototype\<close>).
\<close>

record known_chains =
  own_props :: "string \<rightharpoonup> obj"
  prototype :: "obj option"

text \<open>
  What a read \<^verbatim>\<open>knownChainConfigs[k]\<close> can give: a configuration object, a primitive
  value (inherited from a configuration that became the prototype), or a built-in (a method
  of \<^verbatim>\<open>Object.prototype\<close>, or \<^verbatim>\<open>Object.prototype\<close> itself).
\<close>

datatype propval = Object obj | Primitive jsval | Builtin

fun propval_truthy :: "propval \<Rightarrow> bool" where
  "propval_truthy (Object ob) = True"
| "propval_truthy (Primitive v) = ToBoolean v"
| "propval_truthy Builtin = True"

text \<open>The data properties of \<^verbatim>\<open>Object.prototype\<close>: all of them functions.\<close>

definition Object_prototype_methods :: "string list" where
  "Object_prototype_methods =
     [''constructor'', ''hasOwnProperty'', ''isPrototypeOf'', ''propertyIsEnumerable'',
      ''toLocaleString'', ''toString'', ''valueOf'', ''__defineGetter__'',
      ''__defineSetter__'', ''__lookupGetter__'', ''__lookupSetter__'']"

text \<open>
  A read that reaches \<^verbatim>\<open>Object.prototype\<close>: the accessor \<^verbatim>\<open>__proto__\<close> returns the
  prototype of the object that was read, a method name returns the method, any other name
  is \<^verbatim>\<open>undefined\<close>.
\<close>

definition Object_prototype_get :: "known_chains \<Rightarrow> string \<Rightarrow> propval" where
  "Object_prototype_get t k =
     (if k = ''__proto__'' then (case prototype t of None \<Rightarrow> Builtin | Some p \<Rightarrow> Object p)
      else if k \<in> set Object_prototype_methods then Builtin
      else Primitive JUndefined)"

text \<open>\<^verbatim>\<open>t[k]\<close>: own property, then the prototype's own property, then \<^verbatim>\<open>Object.prototype\<close>.\<close>

definition lookup :: "known_chains \<Rightarrow> string \<Rightarrow> propval" where
  "lookup t k =
     (case own_props t k of
        Some c \<Rightarrow> Object c
      | None \<Rightarrow>
          (case prototype t of
             None \<Rightarrow> Object_prototype_get t k
           | Some p \<Rightarrow>
               (case p k of Some v \<Rightarrow> Primitive v | None \<Rightarrow> Object_prototype_get t k)))"

text \<open>
  \<^verbatim>\<open>t[k] = v\<close> for an object \<open>v\<close>: an own property is written, unless the assignment
  reaches the setter \<^verbatim>\<open>__proto__\<close> of \<^verbatim>\<open>Object.prototype\<close> (the key is \<^verbatim>\<open>__proto__\<close>
  and neither the object nor its prototype has an own property of that name), which makes
  \<open>v\<close> the prototype.
\<close>

definition reaches_Object_prototype :: "known_chains \<Rightarrow> string \<Rightarrow> bool" where
  "reaches_Object_prototype t k =
     (own_props t k = None \<and> (case prototype t of None \<Rightarrow> True | Some p \<Rightarrow> p k = None))"

definition assign :: "known_chains \<Rightarrow> string \<Rightarrow> obj \<Rightarrow> known_chains" where
  "assign t k v =
     (if reaches_Object_prototype t k \<and> k = ''__proto__'' then t\<lparr>prototype := Some v\<rparr>
      else t\<lparr>own_props := (own_props t)(k \<mapsto> v)\<rparr>)"

text \<open>
  The own enumerable properties that a spread \<^verbatim>\<open>{...x}\<close> copies: those of a
  configuration object; the characters of a string, by index; nothing for any other
  primitive and for a built-in (its properties are not enumerable).
\<close>

definition digits :: "string" where
  "digits = ''0123456789''"

function decimal :: "nat \<Rightarrow> string" where
  "decimal n = (if n < 10 then [digits ! n] else decimal (n div 10) @ [digits ! (n mod 10)])"
  by pat_completeness auto
termination
  by (relation "measure id") auto

definition string_indices :: "string \<Rightarrow> obj" where
  "string_indices s = map_of (zip (map decimal [0..<length s]) (map (\<lambda>c. JString [c]) s))"

fun own_enumerable :: "propval \<Rightarrow> obj" where
  "own_enumerable (Object ob) = ob"
| "own_enumerable (Primitive (JString s)) = string_indices s"
| "own_enumerable (Primitive v) = Map.empty"
| "own_enumerable Builtin = Map.empty"

section \<open>The adapter\<close>

datatype adapter_status = NOT_READY | READY | CONNECTING | CONNECTED | DISCONNECTED | ERRORED

text \<open>
  The errors the class throws, one constructor for each factory it calls
  (\<^verbatim>\<open>WalletInitializationError.notReady\<close>, \<^verbatim>\<open>.invalidParams\<close>;
  \<^verbatim>\<open>WalletLoginError.connectionError\<close>, \<^verbatim>\<open>.disconnectionError\<close>, \<^verbatim>\<open>.notConnectedError\<close>,
  \<^verbatim>\<open>.chainConfigNotAdded\<close>; \<^verbatim>\<open>WalletOperationsError.chainNamespaceNotAllowed\<close>), with the
  message passed, and the \<^verbatim>\<open>TypeError\<close> of reading a property of \<^verbatim>\<open>undefined\<close>.
\<close>

datatype error =
    NotReady string
  | InvalidParams string
  | ConnectionError string
  | DisconnectionError string
  | NotConnectedError string
  | ChainConfigNotAdded string
  | ChainNamespaceNotAllowed string
  | TypeError

text \<open>
  \<^verbatim>\<open>BaseAdapterSettings\<close>: every field is optional, \<open>None\<close> is a field that is absent
  (or \<^verbatim>\<open>undefined\<close>).
\<close>

record settings =
  opt_clientId :: "string option"
  opt_sessionTime :: "jsnumber option"
  opt_chainConfig :: "obj option"
  opt_web3AuthNetwork :: "string option"
  opt_useCoreKitKey :: "bool option"

text \<open>
  The fields of \<^verbatim>\<open>BaseAdapter\<close> that its methods read or write. \<open>clientId\<close> is declared
  without an initialiser and \<open>useCoreKitKey\<close> is initialised to \<^verbatim>\<open>undefined\<close> (\<open>None\<close>);
  \<open>chainConfig\<close> is \<^verbatim>\<open>null\<close> (\<open>None\<close>) until it is set. \<open>name\<close>, \<open>status\<close> and
  \<open>currentChainNamespace\<close> are abstract fields and \<open>provider\<close> is an abstract getter: the
  subclass supplies them, and \<open>status\<close> is still \<^verbatim>\<open>undefined\<close> (\<open>None\<close>) when the base
  constructor calls \<^verbatim>\<open>setAdapterSettings\<close>. \<open>'p\<close> is the type of provider handles, of which
  the class only tests the presence.
\<close>

record 'p adapter =
  sessionTime :: jsnumber
  clientId :: "string option"
  web3AuthNetwork :: string
  useCoreKitKey :: "bool option"
  rehydrated :: bool
  chainConfig :: "obj option"
  knownChainConfigs :: known_chains
  currentChainNamespace :: jsval
  name :: string
  status :: "adapter_status option"
  provider :: "'p option"

text \<open>
  A method call ends by returning or by throwing; either way the adapter is left in some
  state, the second component.
\<close>

type_synonym 'p outcome = "(error + unit) \<times> 'p adapter"

definition return :: "'p adapter \<Rightarrow> 'p outcome" where
  "return a = (Inr (), a)"

definition throw :: "error \<Rightarrow> 'p adapter \<Rightarrow> 'p outcome" where
  "throw e a = (Inl e, a)"

text \<open>
  The fields as the class initialises them (\<^verbatim>\<open>sessionTime = 86400\<close>,
  \<^verbatim>\<open>web3AuthNetwork = WEB3AUTH_NETWORK.MAINNET\<close>, \<^verbatim>\<open>useCoreKitKey = undefined\<close>,
  \<^verbatim>\<open>rehydrated = false\<close>, \<^verbatim>\<open>chainConfig = null\<close>, \<^verbatim>\<open>knownChainConfigs = {}\<close>), with the
  members the subclass supplies and the constant \<open>MAINNET\<close> of the auth package as
  parameters.
\<close>

definition new_adapter ::
  "string \<Rightarrow> string \<Rightarrow> jsval \<Rightarrow> adapter_status option \<Rightarrow> 'p option \<Rightarrow> 'p adapter" where
  "new_adapter MAINNET name' namespace status' provider' =
     \<lparr>sessionTime = Fin 86400, clientId = None, web3AuthNetwork = MAINNET,
      useCoreKitKey = None, rehydrated = False, chainConfig = None,
      knownChainConfigs = \<lparr>own_props = Map.empty, prototype = None\<rparr>,
      currentChainNamespace = namespace, name = name', status = status',
      provider = provider'\<rparr>"

subsection \<open>Guards\<close>

text \<open>
  \<^verbatim>\<open>checkConnectionRequirements\<close>. \<open>WALLET_CONNECT_V2\<close> is the constant
  \<^verbatim>\<open>WALLET_ADAPTERS.WALLET_CONNECT_V2\<close> of the wallet module, a parameter here.
\<close>

definition checkConnectionRequirements :: "string \<Rightarrow> 'p adapter \<Rightarrow> 'p outcome" where
  "checkConnectionRequirements WALLET_CONNECT_V2 a =
     (if name a = WALLET_CONNECT_V2 \<and> status a = Some CONNECTING then return a
      else if status a = Some CONNECTING then throw (NotReady ''Already connecting'') a
      else if status a = Some CONNECTED then throw (ConnectionError ''Already connected'') a
      else if status a \<noteq> Some READY then
        throw (ConnectionError ''Wallet adapter is not ready yet, Please wait for init function to resolve before calling connect/connectTo function'') a
      else return a)"

text \<open>
  \<^verbatim>\<open>checkInitializationRequirements\<close>. \<open>OTHER\<close> is the constant
  \<^verbatim>\<open>CHAIN_NAMESPACES.OTHER\<close> of the chain module, a parameter here.
\<close>

definition clientId_truthy :: "'p adapter \<Rightarrow> bool" where
  "clientId_truthy a = (case clientId a of None \<Rightarrow> False | Some s \<Rightarrow> string_truthy s)"

definition checkInitializationRequirements :: "string \<Rightarrow> 'p adapter \<Rightarrow> 'p outcome" where
  "checkInitializationRequirements OTHER a =
     (if \<not> clientId_truthy a then
        throw (InvalidParams ''Please initialize Web3Auth with a valid clientId in constructor'') a
      else case chainConfig a of
        None \<Rightarrow> throw (InvalidParams ''rpcTarget is required in chainConfig'') a
      | Some c \<Rightarrow>
          if \<not> ToBoolean (field c ''rpcTarget'') \<and> field c ''chainNamespace'' \<noteq> JString OTHER then
            throw (InvalidParams ''rpcTarget is required in chainConfig'') a
          else if \<not> ToBoolean (field c ''chainId'') \<and> field c ''chainNamespace'' \<noteq> JString OTHER then
            throw (InvalidParams ''chainID is required in chainConfig'') a
          else if status a = Some NOT_READY then return a
          else if status a = Some CONNECTED then throw (NotReady ''Already connected'') a
          else if status a = Some READY then throw (NotReady ''Adapter is already initialized'') a
          else return a)"

text \<open>\<^verbatim>\<open>checkDisconnectionRequirements\<close>.\<close>

definition checkDisconnectionRequirements :: "'p adapter \<Rightarrow> 'p outcome" where
  "checkDisconnectionRequirements a =
     (if status a \<noteq> Some CONNECTED then throw (DisconnectionError ''Not connected with wallet'') a
      else return a)"

text \<open>
  \<^verbatim>\<open>checkAddChainRequirements(chainConfig, init = false)\<close>; the parameter is written
  \<open>chainConfig'\<close>, \<open>chainConfig\<close> being the field.
\<close>

definition checkAddChainRequirements :: "obj \<Rightarrow> bool \<Rightarrow> 'p adapter \<Rightarrow> 'p outcome" where
  "checkAddChainRequirements chainConfig' init a =
     (if \<not> init \<and> provider a = None then throw (NotConnectedError ''Not connected with wallet.'') a
      else if currentChainNamespace a \<noteq> field chainConfig' ''chainNamespace'' then
        throw (ChainNamespaceNotAllowed ''This adapter doesn't support this chainNamespace'') a
      else return a)"

text \<open>\<^verbatim>\<open>checkSwitchChainRequirements({ chainId }, init = false)\<close>.\<close>

definition checkSwitchChainRequirements :: "string \<Rightarrow> bool \<Rightarrow> 'p adapter \<Rightarrow> 'p outcome" where
  "checkSwitchChainRequirements chainId init a =
     (if \<not> init \<and> provider a = None then throw (NotConnectedError ''Not connected with wallet.'') a
      else if \<not> propval_truthy (lookup (knownChainConfigs a) chainId) then
        throw (ChainConfigNotAdded ''Invalid chainId'') a
      else return a)"

subsection \<open>Chain configuration\<close>

text \<open>
  \<^verbatim>\<open>addChainConfig\<close>: the entry read under the chain id (or \<^verbatim>\<open>{}\<close> when that is falsy)
  is spread first, the new configuration over it, and the result is assigned under the
  chain id.
\<close>

definition or_empty :: "propval \<Rightarrow> obj" where
  "or_empty v = (if propval_truthy v then own_enumerable v else Map.empty)"

definition addChainConfig :: "obj \<Rightarrow> 'p adapter \<Rightarrow> 'p outcome" where
  "addChainConfig chainConfig' a =
     (let key = ToPropertyKey (field chainConfig' ''chainId'');
          currentConfig = lookup (knownChainConfigs a) key
      in return (a\<lparr>knownChainConfigs :=
           assign (knownChainConfigs a) key (or_empty currentConfig ++ chainConfig')\<rparr>))"

text \<open>
  \<^verbatim>\<open>setAdapterSettings\<close>. \<open>getChainConfig\<close> is the registry lookup imported from the
  chain module (\<^verbatim>\<open>getChainConfig(chainNamespace, chainId)\<close>), a parameter here. The call
  stands unguarded between the assignment of \<^verbatim>\<open>currentChainNamespace\<close> and that of
  \<^verbatim>\<open>chainConfig\<close>, so it has three outcomes: it returns a default configuration
  (\<open>Inr (Some d)\<close>), it returns nothing (\<open>Inr None\<close>), or it throws (\<open>Inl e\<close>) and
  \<^verbatim>\<open>setAdapterSettings\<close> ends there with that error. \<open>options\<close> is \<open>None\<close> when the caller
  passes \<^verbatim>\<open>undefined\<close> or \<^verbatim>\<open>null\<close>: the first four reads are guarded
  (\<^verbatim>\<open>options?.sessionTime\<close>), the read \<^verbatim>\<open>options.chainConfig\<close> is not.
\<close>

type_synonym registry = "jsval \<Rightarrow> jsval \<Rightarrow> error + obj option"

definition set_sessionTime :: "settings option \<Rightarrow> 'p adapter \<Rightarrow> 'p adapter" where
  "set_sessionTime options a =
     (case Option.bind options opt_sessionTime of
        Some t \<Rightarrow> if number_truthy t then a\<lparr>sessionTime := t\<rparr> else a
      | None \<Rightarrow> a)"

definition set_clientId :: "settings option \<Rightarrow> 'p adapter \<Rightarrow> 'p adapter" where
  "set_clientId options a =
     (case Option.bind options opt_clientId of
        Some s \<Rightarrow> if string_truthy s then a\<lparr>clientId := Some s\<rparr> else a
      | None \<Rightarrow> a)"

definition set_web3AuthNetwork :: "settings option \<Rightarrow> 'p adapter \<Rightarrow> 'p adapter" where
  "set_web3AuthNetwork options a =
     (case Option.bind options opt_web3AuthNetwork of
        Some s \<Rightarrow> if string_truthy s then a\<lparr>web3AuthNetwork := s\<rparr> else a
      | None \<Rightarrow> a)"

definition set_useCoreKitKey :: "settings option \<Rightarrow> 'p adapter \<Rightarrow> 'p adapter" where
  "set_useCoreKitKey options a =
     (case Option.bind options opt_useCoreKitKey of
        Some b \<Rightarrow> a\<lparr>useCoreKitKey := Some b\<rparr>
      | None \<Rightarrow> a)"

definition set_chainConfig :: "registry \<Rightarrow> obj \<Rightarrow> 'p adapter \<Rightarrow> 'p outcome" where
  "set_chainConfig getChainConfig customChainConfig a =
     (if \<not> ToBoolean (field customChainConfig ''chainNamespace'') then
        throw (NotReady ''ChainNamespace is required while setting chainConfig'') a
      else
        let a1 = a\<lparr>currentChainNamespace := field customChainConfig ''chainNamespace''\<rparr>
        in case getChainConfig (field customChainConfig ''chainNamespace'')
                  (field customChainConfig ''chainId'') of
             Inl e \<Rightarrow> throw e a1
           | Inr defaultChainConfig \<Rightarrow>
               let finalChainConfig =
                     (case defaultChainConfig of None \<Rightarrow> Map.empty | Some d \<Rightarrow> d) ++ customChainConfig
               in addChainConfig finalChainConfig (a1\<lparr>chainConfig := Some finalChainConfig\<rparr>))"

definition setAdapterSettings :: "registry \<Rightarrow> settings option \<Rightarrow> 'p adapter \<Rightarrow> 'p outcome" where
  "setAdapterSettings getChainConfig options a =
     (if status a = Some READY then return a
      else
        let a4 = set_useCoreKitKey options
                   (set_web3AuthNetwork options (set_clientId options (set_sessionTime options a)))
        in case options of
             None \<Rightarrow> throw TypeError a4
           | Some opts \<Rightarrow>
               (case opt_chainConfig opts of
                  None \<Rightarrow> return a4
                | Some customChainConfig \<Rightarrow> set_chainConfig getChainConfig customChainConfig a4))"

section \<open>Properties of the known-chains object\<close>

text \<open>
  What a call of \<^verbatim>\<open>addChainConfig\<close> returns, and how reads and assignments of the
  known-chains object interact. An assignment can reach the setter \<^verbatim>\<open>__proto__\<close> only
  under the key \<^verbatim>\<open>__proto__\<close>; the lemmas on it ask that the assigned configuration has no
  own property of that name, so that the read that follows finds the configuration and not
  one of its fields.
\<close>

lemma snd_addChainConfig:
  "snd (addChainConfig c a) =
     a\<lparr>knownChainConfigs :=
         assign (knownChainConfigs a) (ToPropertyKey (field c ''chainId''))
           (or_empty (lookup (knownChainConfigs a) (ToPropertyKey (field c ''chainId''))) ++ c)\<rparr>"
  by (simp add: addChainConfig_def return_def Let_def)

lemma fst_addChainConfig: "fst (addChainConfig c a) = Inr ()"
  by (simp add: addChainConfig_def return_def Let_def)

lemma or_empty_Object [simp]: "or_empty (Object e) = e"
  by (simp add: or_empty_def)

lemma or_empty_reaches:
  "reaches_Object_prototype t ''__proto__'' \<Longrightarrow> or_empty (lookup t ''__proto__'') ''__proto__'' = None"
  by (auto simp add: reaches_Object_prototype_def lookup_def Object_prototype_get_def or_empty_def
      split: option.splits)

lemma lookup_assign_same:
  assumes "reaches_Object_prototype t k \<and> k = ''__proto__'' \<longrightarrow> v ''__proto__'' = None"
  shows "lookup (assign t k v) k = Object v"
  using assms
  by (auto simp add: assign_def lookup_def reaches_Object_prototype_def Object_prototype_get_def
      split: option.splits)

lemma assign_assign_same:
  assumes "reaches_Object_prototype t k \<and> k = ''__proto__'' \<longrightarrow> v ''__proto__'' = None"
  shows "assign (assign t k v) k v = assign t k v"
  using assms
  by (auto simp add: assign_def reaches_Object_prototype_def split: option.splits)

lemma lookup_assign_Object:
  assumes "lookup t k' = Object e" and "k' \<noteq> k"
  shows "lookup (assign t k v) k' = Object e"
  using assms
  by (auto simp add: assign_def lookup_def reaches_Object_prototype_def Object_prototype_get_def
      split: option.splits if_splits)

lemma own_props_assign:
  "own_props (assign t k v) k' = (if k' = k \<and> \<not> (reaches_Object_prototype t k \<and> k = ''__proto__'') then Some v else own_props t k')"
  by (auto simp add: assign_def)

lemma map_add_twice: "(m ++ c) ++ c = m ++ c"
  by (rule ext) (simp add: map_add_def split: option.split)

lemma lookup_fresh:
  assumes "own_props t = Map.empty" and "prototype t = None"
  shows "lookup t k =
     (if k = ''__proto__'' \<or> k \<in> set Object_prototype_methods then Builtin else Primitive JUndefined)"
  using assms by (simp add: lookup_def Object_prototype_get_def)

lemma lookup_ordinary_key:
  assumes "prototype t = None" and "k \<noteq> ''__proto__''" and "k \<notin> set Object_prototype_methods"
  shows "propval_truthy (lookup t k) = (own_props t k \<noteq> None)"
  using assms by (auto simp add: lookup_def Object_prototype_get_def split: option.splits)

section \<open>Properties of the settings update\<close>

text \<open>
  The four guarded assignments of \<^verbatim>\<open>setAdapterSettings\<close> leave the chain fields alone, and
  the chain part leaves the four settings alone.
\<close>

lemma setters_frame [simp]:
  "knownChainConfigs (set_sessionTime options a) = knownChainConfigs a"
  "knownChainConfigs (set_clientId options a) = knownChainConfigs a"
  "knownChainConfigs (set_web3AuthNetwork options a) = knownChainConfigs a"
  "knownChainConfigs (set_useCoreKitKey options a) = knownChainConfigs a"
  "chainConfig (set_sessionTime options a) = chainConfig a"
  "chainConfig (set_clientId options a) = chainConfig a"
  "chainConfig (set_web3AuthNetwork options a) = chainConfig a"
  "chainConfig (set_useCoreKitKey options a) = chainConfig a"
  "currentChainNamespace (set_sessionTime options a) = currentChainNamespace a"
  "currentChainNamespace (set_clientId options a) = currentChainNamespace a"
  "currentChainNamespace (set_web3AuthNetwork options a) = currentChainNamespace a"
  "currentChainNamespace (set_useCoreKitKey options a) = currentChainNamespace a"
  by (simp_all add: set_sessionTime_def set_clientId_def set_web3AuthNetwork_def
      set_useCoreKitKey_def split: option.split)

lemma setters_fields:
  "sessionTime (set_useCoreKitKey (Some opts) (set_web3AuthNetwork (Some opts)
       (set_clientId (Some opts) (set_sessionTime (Some opts) a)))) =
     (case opt_sessionTime opts of
        Some t \<Rightarrow> if number_truthy t then t else sessionTime a
      | None \<Rightarrow> sessionTime a)"
  "clientId (set_useCoreKitKey (Some opts) (set_web3AuthNetwork (Some opts)
       (set_clientId (Some opts) (set_sessionTime (Some opts) a)))) =
     (case opt_clientId opts of
        Some s \<Rightarrow> if s = [] then clientId a else Some s
      | None \<Rightarrow> clientId a)"
  "web3AuthNetwork (set_useCoreKitKey (Some opts) (set_web3AuthNetwork (Some opts)
       (set_clientId (Some opts) (set_sessionTime (Some opts) a)))) =
     (case opt_web3AuthNetwork opts of
        Some s \<Rightarrow> if s = [] then web3AuthNetwork a else s
      | None \<Rightarrow> web3AuthNetwork a)"
  "useCoreKitKey (set_useCoreKitKey (Some opts) (set_web3AuthNetwork (Some opts)
       (set_clientId (Some opts) (set_sessionTime (Some opts) a)))) =
     (case opt_useCoreKitKey opts of
        Some b \<Rightarrow> Some b
      | None \<Rightarrow> useCoreKitKey a)"
  by (simp_all add: set_sessionTime_def set_clientId_def set_web3AuthNetwork_def
      set_useCoreKitKey_def string_truthy_def split: option.split)

lemma addChainConfig_fields [simp]:
  "sessionTime (snd (addChainConfig c a)) = sessionTime a"
  "clientId (snd (addChainConfig c a)) = clientId a"
  "web3AuthNetwork (snd (addChainConfig c a)) = web3AuthNetwork a"
  "useCoreKitKey (snd (addChainConfig c a)) = useCoreKitKey a"
  "chainConfig (snd (addChainConfig c a)) = chainConfig a"
  "currentChainNamespace (snd (addChainConfig c a)) = currentChainNamespace a"
  by (simp_all add: snd_addChainConfig)

lemma set_chainConfig_fields [simp]:
  "sessionTime (snd (set_chainConfig reg custom a)) = sessionTime a"
  "clientId (snd (set_chainConfig reg custom a)) = clientId a"
  "web3AuthNetwork (snd (set_chainConfig reg custom a)) = web3AuthNetwork a"
  "useCoreKitKey (snd (set_chainConfig reg custom a)) = useCoreKitKey a"
  by (simp_all add: set_chainConfig_def throw_def Let_def split: sum.split)

section \<open>The guards\<close>

text \<open>
  C1. The connect guard, by cases on the status: while connecting it passes for the
  WalletConnect v2 adapter and throws NotReady ("Already connecting") for every other
  adapter; when connected it throws ConnectionError ("Already connected"); in any other
  status but READY it throws ConnectionError (the "not ready yet" message); when READY it
  passes. It never changes the adapter.
\<close>

theorem checkConnectionRequirements_cases:
  "(status a = Some CONNECTING \<and> name a = wc2 \<longrightarrow>
      checkConnectionRequirements wc2 a = (Inr (), a)) \<and>
   (status a = Some CONNECTING \<and> name a \<noteq> wc2 \<longrightarrow>
      checkConnectionRequirements wc2 a = (Inl (NotReady ''Already connecting''), a)) \<and>
   (status a = Some CONNECTED \<longrightarrow>
      checkConnectionRequirements wc2 a = (Inl (ConnectionError ''Already connected''), a)) \<and>
   (status a \<noteq> Some CONNECTING \<and> status a \<noteq> Some CONNECTED \<and> status a \<noteq> Some READY \<longrightarrow>
      checkConnectionRequirements wc2 a =
        (Inl (ConnectionError ''Wallet adapter is not ready yet, Please wait for init function to resolve before calling connect/connectTo function''), a)) \<and>
   (status a = Some READY \<longrightarrow> checkConnectionRequirements wc2 a = (Inr (), a))"
  by (simp add: checkConnectionRequirements_def return_def throw_def)

theorem checkConnectionRequirements_cases_witness:
  "checkConnectionRequirements ''wallet-connect-v2''
     (new_adapter ''mainnet'' ''wallet-connect-v2'' (JString ''eip155'') (Some CONNECTING) (None :: unit option))
     = (Inr (), new_adapter ''mainnet'' ''wallet-connect-v2'' (JString ''eip155'') (Some CONNECTING) None) \<and>
   checkConnectionRequirements ''wallet-connect-v2''
     (new_adapter ''mainnet'' ''metamask'' (JString ''eip155'') (Some CONNECTING) (None :: unit option))
     = (Inl (NotReady ''Already connecting''),
        new_adapter ''mainnet'' ''metamask'' (JString ''eip155'') (Some CONNECTING) None) \<and>
   checkConnectionRequirements ''wallet-connect-v2''
     (new_adapter ''mainnet'' ''metamask'' (JString ''eip155'') (Some CONNECTED) (Some ()))
     = (Inl (ConnectionError ''Already connected''),
        new_adapter ''mainnet'' ''metamask'' (JString ''eip155'') (Some CONNECTED) (Some ())) \<and>
   fst (checkConnectionRequirements ''wallet-connect-v2''
     (new_adapter ''mainnet'' ''metamask'' (JString ''eip155'') (Some NOT_READY) (None :: unit option)))
     = Inl (ConnectionError ''Wallet adapter is not ready yet, Please wait for init function to resolve before calling connect/connectTo function'') \<and>
   checkConnectionRequirements ''wallet-connect-v2''
     (new_adapter ''mainnet'' ''metamask'' (JString ''eip155'') (Some READY) (None :: unit option))
     = (Inr (), new_adapter ''mainnet'' ''metamask'' (JString ''eip155'') (Some READY) None)"
  using
    checkConnectionRequirements_cases [of
      "new_adapter ''mainnet'' ''wallet-connect-v2'' (JString ''eip155'') (Some CONNECTING) (None :: unit option)"
      "''wallet-connect-v2''"]
    checkConnectionRequirements_cases [of
      "new_adapter ''mainnet'' ''metamask'' (JString ''eip155'') (Some CONNECTING) (None :: unit option)"
      "''wallet-connect-v2''"]
    checkConnectionRequirements_cases [of
      "new_adapter ''mainnet'' ''metamask'' (JString ''eip155'') (Some CONNECTED) (Some ())"
      "''wallet-connect-v2''"]
    checkConnectionRequirements_cases [of
      "new_adapter ''mainnet'' ''metamask'' (JString ''eip155'') (Some NOT_READY) (None :: unit option)"
      "''wallet-connect-v2''"]
    checkConnectionRequirements_cases [of
      "new_adapter ''mainnet'' ''metamask'' (JString ''eip155'') (Some READY) (None :: unit option)"
      "''wallet-connect-v2''"]
  by (simp add: new_adapter_def)

text \<open>
  C2. The init guard checks in this order: an unset (or empty) client id, no chain
  configuration, a missing RPC target and a missing chain id each throw InvalidParams, the
  last two only when the namespace is not OTHER; once the parameters are accepted the guard
  passes when the status is NOT_READY, throws NotReady ("Already connected") when CONNECTED
  and NotReady ("Adapter is already initialized") when READY. In the statuses the source
  does not test (CONNECTING, DISCONNECTED, ERRORED) it passes as well. A field is missing
  when its value is falsy: absent, \<^verbatim>\<open>undefined\<close>, \<^verbatim>\<open>null\<close> or the empty string.
\<close>

theorem checkInitializationRequirements_order:
  "(\<not> clientId_truthy a \<longrightarrow>
      checkInitializationRequirements OTHER a =
        (Inl (InvalidParams ''Please initialize Web3Auth with a valid clientId in constructor''), a)) \<and>
   (clientId_truthy a \<and> chainConfig a = None \<longrightarrow>
      checkInitializationRequirements OTHER a =
        (Inl (InvalidParams ''rpcTarget is required in chainConfig''), a)) \<and>
   (clientId_truthy a \<and> chainConfig a = Some c \<and> field c ''chainNamespace'' \<noteq> JString OTHER \<and>
    \<not> ToBoolean (field c ''rpcTarget'') \<longrightarrow>
      checkInitializationRequirements OTHER a =
        (Inl (InvalidParams ''rpcTarget is required in chainConfig''), a)) \<and>
   (clientId_truthy a \<and> chainConfig a = Some c \<and> field c ''chainNamespace'' \<noteq> JString OTHER \<and>
    ToBoolean (field c ''rpcTarget'') \<and> \<not> ToBoolean (field c ''chainId'') \<longrightarrow>
      checkInitializationRequirements OTHER a =
        (Inl (InvalidParams ''chainID is required in chainConfig''), a)) \<and>
   (clientId_truthy a \<and> chainConfig a = Some c \<and>
    (field c ''chainNamespace'' = JString OTHER \<or>
     ToBoolean (field c ''rpcTarget'') \<and> ToBoolean (field c ''chainId'')) \<longrightarrow>
      (status a = Some NOT_READY \<longrightarrow> checkInitializationRequirements OTHER a = (Inr (), a)) \<and>
      (status a = Some CONNECTED \<longrightarrow>
         checkInitializationRequirements OTHER a = (Inl (NotReady ''Already connected''), a)) \<and>
      (status a = Some READY \<longrightarrow>
         checkInitializationRequirements OTHER a =
           (Inl (NotReady ''Adapter is already initialized''), a)) \<and>
      (status a \<noteq> Some NOT_READY \<and> status a \<noteq> Some CONNECTED \<and> status a \<noteq> Some READY \<longrightarrow>
         checkInitializationRequirements OTHER a = (Inr (), a)))"
  by (auto simp add: checkInitializationRequirements_def return_def throw_def)

theorem checkInitializationRequirements_order_witness:
  "fst (checkInitializationRequirements ''other''
      (new_adapter ''mainnet'' ''metamask'' (JString ''eip155'') (Some NOT_READY) (None :: unit option))) =
      Inl (InvalidParams ''Please initialize Web3Auth with a valid clientId in constructor'') \<and>
   fst (checkInitializationRequirements ''other''
      ((new_adapter ''mainnet'' ''metamask'' (JString ''eip155'') (Some NOT_READY) (None :: unit option))\<lparr>clientId := Some ''abc''\<rparr>)) =
      Inl (InvalidParams ''rpcTarget is required in chainConfig'') \<and>
   fst (checkInitializationRequirements ''other''
      ((new_adapter ''mainnet'' ''metamask'' (JString ''eip155'') (Some NOT_READY) (None :: unit option))\<lparr>clientId := Some ''abc'', chainConfig := Some [''chainNamespace'' \<mapsto> JString ''eip155'', ''chainId'' \<mapsto> JString ''0x1'']\<rparr>)) =
      Inl (InvalidParams ''rpcTarget is required in chainConfig'') \<and>
   fst (checkInitializationRequirements ''other''
      ((new_adapter ''mainnet'' ''metamask'' (JString ''eip155'') (Some NOT_READY) (None :: unit option))\<lparr>clientId := Some ''abc'', chainConfig := Some [''chainNamespace'' \<mapsto> JString ''eip155'', ''rpcTarget'' \<mapsto> JString ''https://rpc.ankr.com/eth'']\<rparr>)) =
      Inl (InvalidParams ''chainID is required in chainConfig'') \<and>
   fst (checkInitializationRequirements ''other''
      ((new_adapter ''mainnet'' ''metamask'' (JString ''eip155'') (Some NOT_READY) (None :: unit option))\<lparr>clientId := Some ''abc'', chainConfig := Some [''chainNamespace'' \<mapsto> JString ''eip155'', ''chainId'' \<mapsto> JString ''0x1'', ''rpcTarget'' \<mapsto> JString ''https://rpc.ankr.com/eth'']\<rparr>)) =
      Inr () \<and>
   fst (checkInitializationRequirements ''other''
      ((new_adapter ''mainnet'' ''metamask'' (JString ''eip155'') (Some NOT_READY) (None :: unit option))\<lparr>clientId := Some ''abc'', chainConfig := Some [''chainNamespace'' \<mapsto> JString ''other'']\<rparr>)) =
      Inr () \<and>
   fst (checkInitializationRequirements ''other''
      ((new_adapter ''mainnet'' ''metamask'' (JString ''eip155'') (Some CONNECTED) (None :: unit option))\<lparr>clientId := Some ''abc'', chainConfig := Some [''chainNamespace'' \<mapsto> JString ''eip155'', ''chainId'' \<mapsto> JString ''0x1'', ''rpcTarget'' \<mapsto> JString ''https://rpc.ankr.com/eth'']\<rparr>)) =
      Inl (NotReady ''Already connected'') \<and>
   fst (checkInitializationRequirements ''other''
      ((new_adapter ''mainnet'' ''metamask'' (JString ''eip155'') (Some READY) (None :: unit option))\<lparr>clientId := Some ''abc'', chainConfig := Some [''chainNamespace'' \<mapsto> JString ''eip155'', ''chainId'' \<mapsto> JString ''0x1'', ''rpcTarget'' \<mapsto> JString ''https://rpc.ankr.com/eth'']\<rparr>)) =
      Inl (NotReady ''Adapter is already initialized'') \<and>
   fst (checkInitializationRequirements ''other''
      ((new_adapter ''mainnet'' ''metamask'' (JString ''eip155'') (Some ERRORED) (None :: unit option))\<lparr>clientId := Some ''abc'', chainConfig := Some [''chainNamespace'' \<mapsto> JString ''eip155'', ''chainId'' \<mapsto> JString ''0x1'', ''rpcTarget'' \<mapsto> JString ''https://rpc.ankr.com/eth'']\<rparr>)) =
      Inr ()"
  using
    checkInitializationRequirements_order [of
      "(new_adapter ''mainnet'' ''metamask'' (JString ''eip155'') (Some NOT_READY) (None :: unit option))"
      "''other''" "Map.empty"]
    checkInitializationRequirements_order [of
      "((new_adapter ''mainnet'' ''metamask'' (JString ''eip155'') (Some NOT_READY) (None :: unit option))\<lparr>clientId := Some ''abc''\<rparr>)"
      "''other''" "Map.empty"]
    checkInitializationRequirements_order [of
      "((new_adapter ''mainnet'' ''metamask'' (JString ''eip155'') (Some NOT_READY) (None :: unit option))\<lparr>clientId := Some ''abc'', chainConfig := Some [''chainNamespace'' \<mapsto> JString ''eip155'', ''chainId'' \<mapsto> JString ''0x1'']\<rparr>)"
      "''other''" "[''chainNamespace'' \<mapsto> JString ''eip155'', ''chainId'' \<mapsto> JString ''0x1'']"]
    checkInitializationRequirements_order [of
      "((new_adapter ''mainnet'' ''metamask'' (JString ''eip155'') (Some NOT_READY) (None :: unit option))\<lparr>clientId := Some ''abc'', chainConfig := Some [''chainNamespace'' \<mapsto> JString ''eip155'', ''rpcTarget'' \<mapsto> JString ''https://rpc.ankr.com/eth'']\<rparr>)"
      "''other''" "[''chainNamespace'' \<mapsto> JString ''eip155'', ''rpcTarget'' \<mapsto> JString ''https://rpc.ankr.com/eth'']"]
    checkInitializationRequirements_order [of
      "((new_adapter ''mainnet'' ''metamask'' (JString ''eip155'') (Some NOT_READY) (None :: unit option))\<lparr>clientId := Some ''abc'', chainConfig := Some [''chainNamespace'' \<mapsto> JString ''eip155'', ''chainId'' \<mapsto> JString ''0x1'', ''rpcTarget'' \<mapsto> JString ''https://rpc.ankr.com/eth'']\<rparr>)"
      "''other''" "[''chainNamespace'' \<mapsto> JString ''eip155'', ''chainId'' \<mapsto> JString ''0x1'', ''rpcTarget'' \<mapsto> JString ''https://rpc.ankr.com/eth'']"]
    checkInitializationRequirements_order [of
      "((new_adapter ''mainnet'' ''metamask'' (JString ''eip155'') (Some NOT_READY) (None :: unit option))\<lparr>clientId := Some ''abc'', chainConfig := Some [''chainNamespace'' \<mapsto> JString ''other'']\<rparr>)"
      "''other''" "[''chainNamespace'' \<mapsto> JString ''other'']"]
    checkInitializationRequirements_order [of
      "((new_adapter ''mainnet'' ''metamask'' (JString ''eip155'') (Some CONNECTED) (None :: unit option))\<lparr>clientId := Some ''abc'', chainConfig := Some [''chainNamespace'' \<mapsto> JString ''eip155'', ''chainId'' \<mapsto> JString ''0x1'', ''rpcTarget'' \<mapsto> JString ''https://rpc.ankr.com/eth'']\<rparr>)"
      "''other''" "[''chainNamespace'' \<mapsto> JString ''eip155'', ''chainId'' \<mapsto> JString ''0x1'', ''rpcTarget'' \<mapsto> JString ''https://rpc.ankr.com/eth'']"]
    checkInitializationRequirements_order [of
      "((new_adapter ''mainnet'' ''metamask'' (JString ''eip155'') (Some READY) (None :: unit option))\<lparr>clientId := Some ''abc'', chainConfig := Some [''chainNamespace'' \<mapsto> JString ''eip155'', ''chainId'' \<mapsto> JString ''0x1'', ''rpcTarget'' \<mapsto> JString ''https://rpc.ankr.com/eth'']\<rparr>)"
      "''other''" "[''chainNamespace'' \<mapsto> JString ''eip155'', ''chainId'' \<mapsto> JString ''0x1'', ''rpcTarget'' \<mapsto> JString ''https://rpc.ankr.com/eth'']"]
    checkInitializationRequirements_order [of
      "((new_adapter ''mainnet'' ''metamask'' (JString ''eip155'') (Some ERRORED) (None :: unit option))\<lparr>clientId := Some ''abc'', chainConfig := Some [''chainNamespace'' \<mapsto> JString ''eip155'', ''chainId'' \<mapsto> JString ''0x1'', ''rpcTarget'' \<mapsto> JString ''https://rpc.ankr.com/eth'']\<rparr>)"
      "''other''" "[''chainNamespace'' \<mapsto> JString ''eip155'', ''chainId'' \<mapsto> JString ''0x1'', ''rpcTarget'' \<mapsto> JString ''https://rpc.ankr.com/eth'']"]
  by (simp add: new_adapter_def clientId_truthy_def string_truthy_def field_def)

text \<open>
  C9. The disconnect guard throws DisconnectionError in every status but CONNECTED and
  passes when CONNECTED; either way the adapter, its status included, is as it was.
\<close>

theorem checkDisconnectionRequirements_cases:
  "(status a \<noteq> Some CONNECTED \<longrightarrow>
      checkDisconnectionRequirements a = (Inl (DisconnectionError ''Not connected with wallet''), a)) \<and>
   (status a = Some CONNECTED \<longrightarrow> checkDisconnectionRequirements a = (Inr (), a))"
  by (simp add: checkDisconnectionRequirements_def return_def throw_def)

theorem checkDisconnectionRequirements_cases_witness:
  "checkDisconnectionRequirements
     (new_adapter ''mainnet'' ''metamask'' (JString ''eip155'') (Some READY) (None :: unit option))
     = (Inl (DisconnectionError ''Not connected with wallet''),
        new_adapter ''mainnet'' ''metamask'' (JString ''eip155'') (Some READY) None) \<and>
   checkDisconnectionRequirements
     (new_adapter ''mainnet'' ''metamask'' (JString ''eip155'') (Some CONNECTED) (Some ()))
     = (Inr (), new_adapter ''mainnet'' ''metamask'' (JString ''eip155'') (Some CONNECTED) (Some ()))"
  using
    checkDisconnectionRequirements_cases [of
      "new_adapter ''mainnet'' ''metamask'' (JString ''eip155'') (Some READY) (None :: unit option)"]
    checkDisconnectionRequirements_cases [of
      "new_adapter ''mainnet'' ''metamask'' (JString ''eip155'') (Some CONNECTED) (Some ())"]
  by (simp add: new_adapter_def)

text \<open>
  C8. The add-chain guard throws NotConnectedError when \<open>init\<close> is false and there is no
  provider; otherwise it throws ChainNamespaceNotAllowed exactly when the namespace of the
  configuration differs from \<open>currentChainNamespace\<close>, and passes exactly when the two are
  equal.
\<close>

theorem checkAddChainRequirements_cases:
  "(\<not> init \<and> provider a = None \<longrightarrow>
      checkAddChainRequirements c init a = (Inl (NotConnectedError ''Not connected with wallet.''), a)) \<and>
   (init \<or> provider a \<noteq> None \<longrightarrow>
      (checkAddChainRequirements c init a =
         (Inl (ChainNamespaceNotAllowed ''This adapter doesn't support this chainNamespace''), a))
       = (field c ''chainNamespace'' \<noteq> currentChainNamespace a) \<and>
      (checkAddChainRequirements c init a = (Inr (), a))
       = (field c ''chainNamespace'' = currentChainNamespace a))"
  by (auto simp add: checkAddChainRequirements_def return_def throw_def)

theorem checkAddChainRequirements_cases_witness:
  "checkAddChainRequirements [''chainNamespace'' \<mapsto> JString ''eip155'', ''chainId'' \<mapsto> JString ''0x1''] False
     (new_adapter ''mainnet'' ''metamask'' (JString ''eip155'') (Some READY) (None :: unit option))
     = (Inl (NotConnectedError ''Not connected with wallet.''),
        new_adapter ''mainnet'' ''metamask'' (JString ''eip155'') (Some READY) None) \<and>
   checkAddChainRequirements [''chainNamespace'' \<mapsto> JString ''solana'', ''chainId'' \<mapsto> JString ''0x1''] False
     (new_adapter ''mainnet'' ''metamask'' (JString ''eip155'') (Some CONNECTED) (Some ()))
     = (Inl (ChainNamespaceNotAllowed ''This adapter doesn't support this chainNamespace''),
        new_adapter ''mainnet'' ''metamask'' (JString ''eip155'') (Some CONNECTED) (Some ())) \<and>
   checkAddChainRequirements [''chainNamespace'' \<mapsto> JString ''eip155'', ''chainId'' \<mapsto> JString ''0x1''] True
     (new_adapter ''mainnet'' ''metamask'' (JString ''eip155'') (Some NOT_READY) (None :: unit option))
     = (Inr (), new_adapter ''mainnet'' ''metamask'' (JString ''eip155'') (Some NOT_READY) None)"
  using
    checkAddChainRequirements_cases [of False
      "new_adapter ''mainnet'' ''metamask'' (JString ''eip155'') (Some READY) (None :: unit option)"
      "[''chainNamespace'' \<mapsto> JString ''eip155'', ''chainId'' \<mapsto> JString ''0x1'']"]
    checkAddChainRequirements_cases [of False
      "new_adapter ''mainnet'' ''metamask'' (JString ''eip155'') (Some CONNECTED) (Some ())"
      "[''chainNamespace'' \<mapsto> JString ''solana'', ''chainId'' \<mapsto> JString ''0x1'']"]
    checkAddChainRequirements_cases [of True
      "new_adapter ''mainnet'' ''metamask'' (JString ''eip155'') (Some NOT_READY) (None :: unit option)"
      "[''chainNamespace'' \<mapsto> JString ''eip155'', ''chainId'' \<mapsto> JString ''0x1'']"]
  by (simp add: new_adapter_def field_def)

text \<open>
  The switch-chain guard in terms of the read \<^verbatim>\<open>knownChainConfigs[chainId]\<close>: it throws
  NotConnectedError when \<open>init\<close> is false and there is no provider, otherwise
  ChainConfigNotAdded exactly when the value read is falsy. For a chain id that is not a
  member name of \<^verbatim>\<open>Object.prototype\<close>, on an object whose prototype was never replaced, the
  value read is truthy exactly when the chain id has an entry; and the chain id of a
  configuration that was registered passes the guard.
\<close>

lemma checkSwitchChainRequirements_cases:
  "(\<not> init \<and> provider a = None \<longrightarrow>
      checkSwitchChainRequirements chainId init a =
        (Inl (NotConnectedError ''Not connected with wallet.''), a)) \<and>
   (init \<or> provider a \<noteq> None \<longrightarrow>
      (\<not> propval_truthy (lookup (knownChainConfigs a) chainId) \<longrightarrow>
         checkSwitchChainRequirements chainId init a = (Inl (ChainConfigNotAdded ''Invalid chainId''), a)) \<and>
      (propval_truthy (lookup (knownChainConfigs a) chainId) \<longrightarrow>
         checkSwitchChainRequirements chainId init a = (Inr (), a)))"
  by (auto simp add: checkSwitchChainRequirements_def return_def throw_def)

lemma checkSwitchChainRequirements_registered:
  assumes "ToPropertyKey (field c ''chainId'') = ''__proto__'' \<longrightarrow> c ''__proto__'' = None"
    and "init \<or> provider a \<noteq> None"
  shows "checkSwitchChainRequirements (ToPropertyKey (field c ''chainId'')) init (snd (addChainConfig c a))
     = (Inr (), snd (addChainConfig c a))"
proof -
  have "lookup (knownChainConfigs (snd (addChainConfig c a))) (ToPropertyKey (field c ''chainId''))
      = Object (or_empty (lookup (knownChainConfigs a) (ToPropertyKey (field c ''chainId''))) ++ c)"
    unfolding snd_addChainConfig
    using assms(1) by (simp, intro lookup_assign_same) (auto simp add: or_empty_reaches map_add_None)
  with assms(2) show ?thesis
    using checkSwitchChainRequirements_cases [of init "snd (addChainConfig c a)" "ToPropertyKey (field c ''chainId'')"]
    by (simp add: snd_addChainConfig)
qed

text \<open>
  C7. The claim is that the switch-chain guard throws ChainConfigNotAdded for every chain
  id that has no entry in the known-chains map. The code does not: on an adapter whose
  known-chains object is still the empty \<^verbatim>\<open>{}\<close> it was created as, with a provider or with
  \<open>init\<close> true, the guard passes for every chain id that is a member name of
  \<^verbatim>\<open>Object.prototype\<close> (\<^verbatim>\<open>toString\<close>, \<^verbatim>\<open>constructor\<close>, \<^verbatim>\<open>__proto__\<close>, ...), since the
  read \<^verbatim>\<open>knownChainConfigs[chainId]\<close> finds the inherited member, which is truthy.
\<close>

theorem checkSwitchChainRequirements_inherited:
  assumes "own_props (knownChainConfigs a) = Map.empty" and "prototype (knownChainConfigs a) = None"
    and "init \<or> provider a \<noteq> None"
    and "chainId \<in> set Object_prototype_methods \<or> chainId = ''__proto__''"
  shows "checkSwitchChainRequirements chainId init a = (Inr (), a)"
  using assms by (auto simp add: checkSwitchChainRequirements_def return_def lookup_fresh)

theorem checkSwitchChainRequirements_inherited_witness:
  "checkSwitchChainRequirements ''toString'' True
     (new_adapter ''mainnet'' ''metamask'' (JString ''eip155'') (Some CONNECTED) (Some ()))
   = (Inr (), new_adapter ''mainnet'' ''metamask'' (JString ''eip155'') (Some CONNECTED) (Some ())) \<and>
   checkSwitchChainRequirements ''__proto__'' False
     (new_adapter ''mainnet'' ''metamask'' (JString ''eip155'') (Some CONNECTED) (Some ()))
   = (Inr (), new_adapter ''mainnet'' ''metamask'' (JString ''eip155'') (Some CONNECTED) (Some ()))"
  using
    checkSwitchChainRequirements_inherited [of
      "new_adapter ''mainnet'' ''metamask'' (JString ''eip155'') (Some CONNECTED) (Some ())"
      True "''toString''"]
    checkSwitchChainRequirements_inherited [of
      "new_adapter ''mainnet'' ''metamask'' (JString ''eip155'') (Some CONNECTED) (Some ())"
      False "''__proto__''"]
  by (simp add: new_adapter_def Object_prototype_methods_def)

section \<open>Chain configurations\<close>

text \<open>
  What \<^verbatim>\<open>addChainConfig\<close> does for a configuration whose chain id is not \<^verbatim>\<open>__proto__\<close>, or
  that has no own property of that name. It never throws; adding \<open>c\<close> twice leaves the
  adapter as adding it once does; after adding \<open>c1\<close> and then \<open>c2\<close> of the same chain id, the
  entry read under that id has the value of \<open>c2\<close> for every key of \<open>c2\<close>, the value of \<open>c1\<close>
  for every key of \<open>c1\<close> alone, and the value of the entry that was there before for every
  other key; every entry that was there before adding \<open>c\<close> is still there and keeps every
  field that \<open>c\<close> does not mention; and no own property of the known-chains object is
  removed.
\<close>

lemma addChainConfig_merge:
  assumes "ToPropertyKey (field c ''chainId'') = ''__proto__'' \<longrightarrow> c ''__proto__'' = None"
    and "ToPropertyKey (field c1 ''chainId'') = ''__proto__'' \<longrightarrow> c1 ''__proto__'' = None"
    and "ToPropertyKey (field c2 ''chainId'') = ''__proto__'' \<longrightarrow> c2 ''__proto__'' = None"
    and "field c1 ''chainId'' = field c2 ''chainId''"
  shows "fst (addChainConfig c a) = Inr () \<and>
     snd (addChainConfig c (snd (addChainConfig c a))) = snd (addChainConfig c a) \<and>
     (\<exists>e. lookup (knownChainConfigs (snd (addChainConfig c2 (snd (addChainConfig c1 a)))))
            (ToPropertyKey (field c2 ''chainId'')) = Object e \<and>
          (\<forall>k. k \<in> dom c2 \<longrightarrow> e k = c2 k) \<and>
          (\<forall>k. k \<notin> dom c2 \<and> k \<in> dom c1 \<longrightarrow> e k = c1 k) \<and>
          (\<forall>k. k \<notin> dom c2 \<and> k \<notin> dom c1 \<longrightarrow>
             e k = or_empty (lookup (knownChainConfigs a) (ToPropertyKey (field c1 ''chainId''))) k)) \<and>
     (\<forall>k e. lookup (knownChainConfigs a) k = Object e \<longrightarrow>
        (\<exists>e'. lookup (knownChainConfigs (snd (addChainConfig c a))) k = Object e' \<and>
              (\<forall>f. f \<notin> dom c \<longrightarrow> e' f = e f))) \<and>
     dom (own_props (knownChainConfigs a)) \<subseteq> dom (own_props (knownChainConfigs (snd (addChainConfig c a))))"
proof -
  let ?t = "knownChainConfigs a"
  have stored: "lookup (assign t k (or_empty (lookup t k) ++ d)) k = Object (or_empty (lookup t k) ++ d)"
    if "k = ''__proto__'' \<longrightarrow> d ''__proto__'' = None" for d :: obj and t k
    using that by (intro lookup_assign_same) (auto simp add: or_empty_reaches map_add_None)
  have again: "assign (assign t k (or_empty (lookup t k) ++ d)) k (or_empty (lookup t k) ++ d)
      = assign t k (or_empty (lookup t k) ++ d)"
    if "k = ''__proto__'' \<longrightarrow> d ''__proto__'' = None" for d :: obj and t k
    using that by (intro assign_assign_same) (auto simp add: or_empty_reaches map_add_None)
  have idem: "snd (addChainConfig c (snd (addChainConfig c a))) = snd (addChainConfig c a)"
    using assms(1) by (simp add: snd_addChainConfig stored map_add_twice again)
  have two: "lookup (knownChainConfigs (snd (addChainConfig c2 (snd (addChainConfig c1 a)))))
        (ToPropertyKey (field c2 ''chainId''))
      = Object ((or_empty (lookup ?t (ToPropertyKey (field c1 ''chainId''))) ++ c1) ++ c2)"
  proof -
    let ?k = "ToPropertyKey (field c1 ''chainId'')"
    let ?t1 = "assign ?t ?k (or_empty (lookup ?t ?k) ++ c1)"
    have first: "lookup ?t1 ?k = Object (or_empty (lookup ?t ?k) ++ c1)"
      using assms(2) by (intro stored) simp
    have "lookup (assign ?t1 ?k (or_empty (lookup ?t1 ?k) ++ c2)) ?k
        = Object (or_empty (lookup ?t1 ?k) ++ c2)"
      using assms(3) assms(4) by (intro stored) simp
    then show ?thesis
      by (simp add: snd_addChainConfig assms(4) [symmetric] first)
  qed
  have merge: "\<exists>e. lookup (knownChainConfigs (snd (addChainConfig c2 (snd (addChainConfig c1 a)))))
            (ToPropertyKey (field c2 ''chainId'')) = Object e \<and>
          (\<forall>k. k \<in> dom c2 \<longrightarrow> e k = c2 k) \<and>
          (\<forall>k. k \<notin> dom c2 \<and> k \<in> dom c1 \<longrightarrow> e k = c1 k) \<and>
          (\<forall>k. k \<notin> dom c2 \<and> k \<notin> dom c1 \<longrightarrow>
             e k = or_empty (lookup ?t (ToPropertyKey (field c1 ''chainId''))) k)"
    unfolding two by (auto simp add: map_add_def dom_def split: option.splits)
  have kept: "\<exists>e'. lookup (knownChainConfigs (snd (addChainConfig c a))) k = Object e' \<and>
              (\<forall>f. f \<notin> dom c \<longrightarrow> e' f = e f)"
    if "lookup ?t k = Object e" for k e
  proof (cases "k = ToPropertyKey (field c ''chainId'')")
    case True
    have "lookup (assign ?t k (or_empty (lookup ?t k) ++ c)) k = Object (or_empty (lookup ?t k) ++ c)"
      using assms(1) True by (intro stored) simp
    with True that show ?thesis
      by (auto simp add: snd_addChainConfig map_add_def dom_def split: option.splits)
  next
    case False
    then show ?thesis
      using that by (simp add: snd_addChainConfig lookup_assign_Object)
  qed
  have grows: "dom (own_props ?t) \<subseteq> dom (own_props (knownChainConfigs (snd (addChainConfig c a))))"
    by (auto simp add: snd_addChainConfig own_props_assign)
  from idem merge kept grows show ?thesis
    by (simp add: fst_addChainConfig)
qed


text \<open>
  C4. The claim is that for every chain configuration \<open>c\<close>, adding \<open>c\<close> twice leaves the
  entry of its chain id as adding it once does. The code does not for a configuration
  whose chain id is \<^verbatim>\<open>__proto__\<close> and which has an own property of that name, as
  \<^verbatim>\<open>JSON.parse\<close> builds it. On a new adapter the first call reaches the setter of
  \<^verbatim>\<open>Object.prototype\<close> and makes the configuration the prototype of the known-chains
  object, which gets no own property; the read under the chain id then gives the string
  that the configuration holds under \<^verbatim>\<open>__proto__\<close>. The second call spreads that string,
  merges the configuration over its characters and writes the result as an own property:
  the entry read after two calls is an object, after one call a string, and the two
  adapters differ.
\<close>

theorem addChainConfig_twice_differs:
  "fst (addChainConfig [''__proto__'' \<mapsto> JString ''x'', ''chainId'' \<mapsto> JString ''__proto__'', ''chainNamespace'' \<mapsto> JString ''eip155'', ''rpcTarget'' \<mapsto> JString ''https://rpc.ankr.com/eth''] (new_adapter ''mainnet'' ''metamask'' (JString ''eip155'') (Some NOT_READY) (None :: unit option))) = Inr () \<and>
   own_props (knownChainConfigs (snd (addChainConfig [''__proto__'' \<mapsto> JString ''x'', ''chainId'' \<mapsto> JString ''__proto__'', ''chainNamespace'' \<mapsto> JString ''eip155'', ''rpcTarget'' \<mapsto> JString ''https://rpc.ankr.com/eth''] (new_adapter ''mainnet'' ''metamask'' (JString ''eip155'') (Some NOT_READY) (None :: unit option))))) = Map.empty \<and>
   lookup (knownChainConfigs (snd (addChainConfig [''__proto__'' \<mapsto> JString ''x'', ''chainId'' \<mapsto> JString ''__proto__'', ''chainNamespace'' \<mapsto> JString ''eip155'', ''rpcTarget'' \<mapsto> JString ''https://rpc.ankr.com/eth''] (new_adapter ''mainnet'' ''metamask'' (JString ''eip155'') (Some NOT_READY) (None :: unit option))))) ''__proto__'' = Primitive (JString ''x'') \<and>
   lookup (knownChainConfigs (snd (addChainConfig [''__proto__'' \<mapsto> JString ''x'', ''chainId'' \<mapsto> JString ''__proto__'', ''chainNamespace'' \<mapsto> JString ''eip155'', ''rpcTarget'' \<mapsto> JString ''https://rpc.ankr.com/eth''] (snd (addChainConfig [''__proto__'' \<mapsto> JString ''x'', ''chainId'' \<mapsto> JString ''__proto__'', ''chainNamespace'' \<mapsto> JString ''eip155'', ''rpcTarget'' \<mapsto> JString ''https://rpc.ankr.com/eth''] (new_adapter ''mainnet'' ''metamask'' (JString ''eip155'') (Some NOT_READY) (None :: unit option))))))) ''__proto__'' =
     Object ([''0'' \<mapsto> JString ''x''] ++ [''__proto__'' \<mapsto> JString ''x'', ''chainId'' \<mapsto> JString ''__proto__'', ''chainNamespace'' \<mapsto> JString ''eip155'', ''rpcTarget'' \<mapsto> JString ''https://rpc.ankr.com/eth'']) \<and>
   snd (addChainConfig [''__proto__'' \<mapsto> JString ''x'', ''chainId'' \<mapsto> JString ''__proto__'', ''chainNamespace'' \<mapsto> JString ''eip155'', ''rpcTarget'' \<mapsto> JString ''https://rpc.ankr.com/eth''] (snd (addChainConfig [''__proto__'' \<mapsto> JString ''x'', ''chainId'' \<mapsto> JString ''__proto__'', ''chainNamespace'' \<mapsto> JString ''eip155'', ''rpcTarget'' \<mapsto> JString ''https://rpc.ankr.com/eth''] (new_adapter ''mainnet'' ''metamask'' (JString ''eip155'') (Some NOT_READY) (None :: unit option))))) \<noteq> snd (addChainConfig [''__proto__'' \<mapsto> JString ''x'', ''chainId'' \<mapsto> JString ''__proto__'', ''chainNamespace'' \<mapsto> JString ''eip155'', ''rpcTarget'' \<mapsto> JString ''https://rpc.ankr.com/eth''] (new_adapter ''mainnet'' ''metamask'' (JString ''eip155'') (Some NOT_READY) (None :: unit option)))"
proof -
  let ?c = "[''__proto__'' \<mapsto> JString ''x'', ''chainId'' \<mapsto> JString ''__proto__'', ''chainNamespace'' \<mapsto> JString ''eip155'', ''rpcTarget'' \<mapsto> JString ''https://rpc.ankr.com/eth'']"
  let ?t0 = "\<lparr>own_props = Map.empty, prototype = None\<rparr>"
  let ?t1 = "\<lparr>own_props = Map.empty, prototype = Some ?c\<rparr>"
  have key: "ToPropertyKey (field ?c ''chainId'') = ''__proto__''"
    by (simp add: field_def)
  have read0: "or_empty (lookup ?t0 ''__proto__'') = Map.empty"
    by (simp add: lookup_def Object_prototype_get_def or_empty_def)
  have write0: "assign ?t0 ''__proto__'' ?c = ?t1"
    by (simp add: assign_def reaches_Object_prototype_def)
  have once: "knownChainConfigs (snd (addChainConfig ?c (new_adapter ''mainnet'' ''metamask'' (JString ''eip155'') (Some NOT_READY) (None :: unit option)))) = ?t1"
    by (simp add: snd_addChainConfig key new_adapter_def read0 write0)
  have read1: "lookup ?t1 ''__proto__'' = Primitive (JString ''x'')"
    by (simp add: lookup_def)
  have spread1: "or_empty (Primitive (JString ''x'')) = [''0'' \<mapsto> JString ''x'']"
    by (simp add: or_empty_def string_truthy_def string_indices_def digits_def)
  have write1: "assign ?t1 ''__proto__'' v = \<lparr>own_props = [''__proto__'' \<mapsto> v], prototype = Some ?c\<rparr>" for v
    by (simp add: assign_def reaches_Object_prototype_def)
  have twice: "knownChainConfigs (snd (addChainConfig ?c (snd (addChainConfig ?c (new_adapter ''mainnet'' ''metamask'' (JString ''eip155'') (Some NOT_READY) (None :: unit option)))))) =
      \<lparr>own_props = [''__proto__'' \<mapsto> [''0'' \<mapsto> JString ''x''] ++ ?c], prototype = Some ?c\<rparr>"
    by (simp add: snd_addChainConfig [of ?c "snd (addChainConfig ?c (new_adapter ''mainnet'' ''metamask'' (JString ''eip155'') (Some NOT_READY) (None :: unit option)))"] key once read1 spread1 write1)
  have differ: "snd (addChainConfig ?c (snd (addChainConfig ?c (new_adapter ''mainnet'' ''metamask'' (JString ''eip155'') (Some NOT_READY) (None :: unit option))))) \<noteq> snd (addChainConfig ?c (new_adapter ''mainnet'' ''metamask'' (JString ''eip155'') (Some NOT_READY) (None :: unit option)))"
  proof
    assume "snd (addChainConfig ?c (snd (addChainConfig ?c (new_adapter ''mainnet'' ''metamask'' (JString ''eip155'') (Some NOT_READY) (None :: unit option))))) = snd (addChainConfig ?c (new_adapter ''mainnet'' ''metamask'' (JString ''eip155'') (Some NOT_READY) (None :: unit option)))"
    then have "own_props (knownChainConfigs (snd (addChainConfig ?c (snd (addChainConfig ?c (new_adapter ''mainnet'' ''metamask'' (JString ''eip155'') (Some NOT_READY) (None :: unit option))))))) ''__proto__'' =
        own_props (knownChainConfigs (snd (addChainConfig ?c (new_adapter ''mainnet'' ''metamask'' (JString ''eip155'') (Some NOT_READY) (None :: unit option))))) ''__proto__''"
      by simp
    then show False
      by (simp add: once twice)
  qed
  show ?thesis
    by (simp only: once twice read1 fst_addChainConfig differ)
       (simp add: lookup_def)
qed

section \<open>The settings update\<close>

text \<open>
  C5. When the status is READY, \<^verbatim>\<open>setAdapterSettings\<close> returns at once: whatever is passed
  (also \<^verbatim>\<open>undefined\<close>), the call does not throw and the adapter, with all its fields, is as
  it was.
\<close>

theorem setAdapterSettings_ready:
  "status a = Some READY \<Longrightarrow> setAdapterSettings getChainConfig options a = (Inr (), a)"
  by (simp add: setAdapterSettings_def return_def)

theorem setAdapterSettings_ready_witness:
  "setAdapterSettings (\<lambda>namespace chainId. Inr None)
     (Some \<lparr>opt_clientId = Some ''abc'', opt_sessionTime = Some (Fin 3600),
            opt_chainConfig = Some [''chainNamespace'' \<mapsto> JString ''solana'', ''chainId'' \<mapsto> JString ''0x3''],
            opt_web3AuthNetwork = Some ''testnet'', opt_useCoreKitKey = Some True\<rparr>)
     (new_adapter ''mainnet'' ''metamask'' (JString ''eip155'') (Some READY) (None :: unit option))
   = (Inr (), new_adapter ''mainnet'' ''metamask'' (JString ''eip155'') (Some READY) None)"
  using setAdapterSettings_ready [of
      "new_adapter ''mainnet'' ''metamask'' (JString ''eip155'') (Some READY) (None :: unit option)"
      "\<lambda>namespace chainId. Inr None"
      "Some \<lparr>opt_clientId = Some ''abc'', opt_sessionTime = Some (Fin 3600),
            opt_chainConfig = Some [''chainNamespace'' \<mapsto> JString ''solana'', ''chainId'' \<mapsto> JString ''0x3''],
            opt_web3AuthNetwork = Some ''testnet'', opt_useCoreKitKey = Some True\<rparr>"]
  by (simp add: new_adapter_def)

text \<open>
  C10. When the status is not READY, \<^verbatim>\<open>setAdapterSettings\<close> applies \<open>sessionTime\<close>,
  \<open>clientId\<close> and \<open>web3AuthNetwork\<close> only when the value passed is truthy: a session time of
  0 (or NaN) and an empty string leave the field as it was, and do not make the call throw.
  \<open>useCoreKitKey\<close> is applied whenever it is passed, \<^verbatim>\<open>false\<close> included. This is the state
  the call leaves, whether or not the chain part of the call throws afterwards; with no
  chain configuration passed the call returns.
\<close>

theorem setAdapterSettings_falsy:
  assumes "status a \<noteq> Some READY"
  shows "sessionTime (snd (setAdapterSettings reg (Some opts) a)) =
       (case opt_sessionTime opts of
          Some t \<Rightarrow> if number_truthy t then t else sessionTime a
        | None \<Rightarrow> sessionTime a) \<and>
     clientId (snd (setAdapterSettings reg (Some opts) a)) =
       (case opt_clientId opts of
          Some s \<Rightarrow> if s = [] then clientId a else Some s
        | None \<Rightarrow> clientId a) \<and>
     web3AuthNetwork (snd (setAdapterSettings reg (Some opts) a)) =
       (case opt_web3AuthNetwork opts of
          Some s \<Rightarrow> if s = [] then web3AuthNetwork a else s
        | None \<Rightarrow> web3AuthNetwork a) \<and>
     useCoreKitKey (snd (setAdapterSettings reg (Some opts) a)) =
       (case opt_useCoreKitKey opts of
          Some b \<Rightarrow> Some b
        | None \<Rightarrow> useCoreKitKey a) \<and>
     (opt_chainConfig opts = None \<longrightarrow> fst (setAdapterSettings reg (Some opts) a) = Inr ())"
proof (cases "opt_chainConfig opts")
  case None
  with assms show ?thesis
    by (simp add: setAdapterSettings_def return_def Let_def setters_fields)
next
  case (Some custom)
  with assms show ?thesis
    by (simp add: setAdapterSettings_def Let_def setters_fields)
qed

theorem setAdapterSettings_falsy_witness:
  "sessionTime (snd (setAdapterSettings (\<lambda>namespace chainId. Inr None) (Some \<lparr>opt_clientId = Some '''', opt_sessionTime = Some (Fin 0), opt_chainConfig = None, opt_web3AuthNetwork = Some '''', opt_useCoreKitKey = Some False\<rparr>) (new_adapter ''mainnet'' ''metamask'' (JString ''eip155'') (Some NOT_READY) (None :: unit option)))) = Fin 86400 \<and>
   clientId (snd (setAdapterSettings (\<lambda>namespace chainId. Inr None) (Some \<lparr>opt_clientId = Some '''', opt_sessionTime = Some (Fin 0), opt_chainConfig = None, opt_web3AuthNetwork = Some '''', opt_useCoreKitKey = Some False\<rparr>) (new_adapter ''mainnet'' ''metamask'' (JString ''eip155'') (Some NOT_READY) (None :: unit option)))) = None \<and>
   web3AuthNetwork (snd (setAdapterSettings (\<lambda>namespace chainId. Inr None) (Some \<lparr>opt_clientId = Some '''', opt_sessionTime = Some (Fin 0), opt_chainConfig = None, opt_web3AuthNetwork = Some '''', opt_useCoreKitKey = Some False\<rparr>) (new_adapter ''mainnet'' ''metamask'' (JString ''eip155'') (Some NOT_READY) (None :: unit option)))) = ''mainnet'' \<and>
   useCoreKitKey (snd (setAdapterSettings (\<lambda>namespace chainId. Inr None) (Some \<lparr>opt_clientId = Some '''', opt_sessionTime = Some (Fin 0), opt_chainConfig = None, opt_web3AuthNetwork = Some '''', opt_useCoreKitKey = Some False\<rparr>) (new_adapter ''mainnet'' ''metamask'' (JString ''eip155'') (Some NOT_READY) (None :: unit option)))) = Some False \<and>
   fst (setAdapterSettings (\<lambda>namespace chainId. Inr None) (Some \<lparr>opt_clientId = Some '''', opt_sessionTime = Some (Fin 0), opt_chainConfig = None, opt_web3AuthNetwork = Some '''', opt_useCoreKitKey = Some False\<rparr>) (new_adapter ''mainnet'' ''metamask'' (JString ''eip155'') (Some NOT_READY) (None :: unit option))) = Inr () \<and>
   sessionTime (snd (setAdapterSettings (\<lambda>namespace chainId. Inr None) (Some \<lparr>opt_clientId = Some ''abc'', opt_sessionTime = Some (Fin 3600), opt_chainConfig = None, opt_web3AuthNetwork = Some ''testnet'', opt_useCoreKitKey = None\<rparr>) (new_adapter ''mainnet'' ''metamask'' (JString ''eip155'') (Some NOT_READY) (None :: unit option)))) = Fin 3600 \<and>
   clientId (snd (setAdapterSettings (\<lambda>namespace chainId. Inr None) (Some \<lparr>opt_clientId = Some ''abc'', opt_sessionTime = Some (Fin 3600), opt_chainConfig = None, opt_web3AuthNetwork = Some ''testnet'', opt_useCoreKitKey = None\<rparr>) (new_adapter ''mainnet'' ''metamask'' (JString ''eip155'') (Some NOT_READY) (None :: unit option)))) = Some ''abc'' \<and>
   web3AuthNetwork (snd (setAdapterSettings (\<lambda>namespace chainId. Inr None) (Some \<lparr>opt_clientId = Some ''abc'', opt_sessionTime = Some (Fin 3600), opt_chainConfig = None, opt_web3AuthNetwork = Some ''testnet'', opt_useCoreKitKey = None\<rparr>) (new_adapter ''mainnet'' ''metamask'' (JString ''eip155'') (Some NOT_READY) (None :: unit option)))) = ''testnet'' \<and>
   useCoreKitKey (snd (setAdapterSettings (\<lambda>namespace chainId. Inr None) (Some \<lparr>opt_clientId = Some ''abc'', opt_sessionTime = Some (Fin 3600), opt_chainConfig = None, opt_web3AuthNetwork = Some ''testnet'', opt_useCoreKitKey = None\<rparr>) (new_adapter ''mainnet'' ''metamask'' (JString ''eip155'') (Some NOT_READY) (None :: unit option)))) = None"
  using
    setAdapterSettings_falsy [of "(new_adapter ''mainnet'' ''metamask'' (JString ''eip155'') (Some NOT_READY) (None :: unit option))" "\<lambda>namespace chainId. Inr None" "\<lparr>opt_clientId = Some '''', opt_sessionTime = Some (Fin 0), opt_chainConfig = None, opt_web3AuthNetwork = Some '''', opt_useCoreKitKey = Some False\<rparr>"]
    setAdapterSettings_falsy [of "(new_adapter ''mainnet'' ''metamask'' (JString ''eip155'') (Some NOT_READY) (None :: unit option))" "\<lambda>namespace chainId. Inr None" "\<lparr>opt_clientId = Some ''abc'', opt_sessionTime = Some (Fin 3600), opt_chainConfig = None, opt_web3AuthNetwork = Some ''testnet'', opt_useCoreKitKey = None\<rparr>"]
  by (simp add: new_adapter_def)




text \<open>
  C6. The claim is that a chain configuration without a namespace makes
  \<^verbatim>\<open>setAdapterSettings\<close> throw InvalidParams. The code throws, but the error it makes is
  \<^verbatim>\<open>WalletInitializationError.notReady\<close>, with the message "ChainNamespace is required while
  setting chainConfig": it is NotReady and for no message InvalidParams. The chain fields
  of the adapter are left as they were.
\<close>

theorem setAdapterSettings_no_namespace:
  assumes "status a \<noteq> Some READY" and "opt_chainConfig opts = Some custom"
    and "\<not> ToBoolean (field custom ''chainNamespace'')"
  shows "fst (setAdapterSettings reg (Some opts) a) =
       Inl (NotReady ''ChainNamespace is required while setting chainConfig'') \<and>
     (\<forall>m. fst (setAdapterSettings reg (Some opts) a) \<noteq> Inl (InvalidParams m)) \<and>
     chainConfig (snd (setAdapterSettings reg (Some opts) a)) = chainConfig a \<and>
     knownChainConfigs (snd (setAdapterSettings reg (Some opts) a)) = knownChainConfigs a \<and>
     currentChainNamespace (snd (setAdapterSettings reg (Some opts) a)) = currentChainNamespace a"
  using assms by (simp add: setAdapterSettings_def set_chainConfig_def throw_def Let_def)

theorem setAdapterSettings_no_namespace_witness:
  "fst (setAdapterSettings (\<lambda>namespace chainId. Inr None) (Some \<lparr>opt_clientId = Some ''abc'', opt_sessionTime = None, opt_chainConfig = Some [''chainId'' \<mapsto> JString ''0x1'', ''rpcTarget'' \<mapsto> JString ''https://rpc.ankr.com/eth''], opt_web3AuthNetwork = None, opt_useCoreKitKey = None\<rparr>) (new_adapter ''mainnet'' ''metamask'' (JString ''eip155'') (Some NOT_READY) (None :: unit option))) =
     Inl (NotReady ''ChainNamespace is required while setting chainConfig'') \<and>
   chainConfig (snd (setAdapterSettings (\<lambda>namespace chainId. Inr None) (Some \<lparr>opt_clientId = Some ''abc'', opt_sessionTime = None, opt_chainConfig = Some [''chainId'' \<mapsto> JString ''0x1'', ''rpcTarget'' \<mapsto> JString ''https://rpc.ankr.com/eth''], opt_web3AuthNetwork = None, opt_useCoreKitKey = None\<rparr>) (new_adapter ''mainnet'' ''metamask'' (JString ''eip155'') (Some NOT_READY) (None :: unit option)))) = None"
  using setAdapterSettings_no_namespace [of
      "(new_adapter ''mainnet'' ''metamask'' (JString ''eip155'') (Some NOT_READY) (None :: unit option))" "\<lparr>opt_clientId = Some ''abc'', opt_sessionTime = None, opt_chainConfig = Some [''chainId'' \<mapsto> JString ''0x1'', ''rpcTarget'' \<mapsto> JString ''https://rpc.ankr.com/eth''], opt_web3AuthNetwork = None, opt_useCoreKitKey = None\<rparr>" "[''chainId'' \<mapsto> JString ''0x1'', ''rpcTarget'' \<mapsto> JString ''https://rpc.ankr.com/eth'']" "\<lambda>namespace chainId. Inr None"]
  by (simp add: new_adapter_def field_def)

end
